theory Spec2Isabelle
  imports Main "HOL-Library.Word"
begin

section \<open>The REAC connection engine (REACConnection.cpp)\<close>

subsection \<open>Data\<close>

type_synonym byte = "8 word"

text \<open>A packet buffer chain (\<open>mbuf_t\<close>) is the list of its bytes.\<close>
type_synonym mbuf = "byte list"

text \<open>
  \<open>REACMode\<close> is declared in REACConnection.h. The source compares it with
  \<open>REAC_MASTER\<close> and \<open>REAC_SLAVE\<close>, and \<open>pushSamples\<close> has a check for a mode that
  is neither; \<open>REAC_OTHER\<close> stands for any such value.
\<close>
datatype REACMode = REAC_MASTER | REAC_SLAVE | REAC_OTHER

datatype IOReturn =
  kIOReturnSuccess | kIOReturnError | kIOReturnInvalid | kIOReturnBadArgument

record REACDeviceInfo =
  addr :: "byte list"
  in_channels :: nat
  out_channels :: nat

text \<open>
  The constants and the packet header type come from REACConnection.h and
  REACDataStream.h, which are not among the sources; they are parameters of the
  model. \<open>PROTOCOL\<close> and \<open>ENDING\<close> are two bytes each: the source reads \<open>PROTOCOL[0]\<close> and
  \<open>PROTOCOL[1]\<close> against the two type bytes of the Ethernet header, and it adds
  \<open>sizeof(UInt16)\<close> for the ending to the expected packet length. A packet header
  is the list of its \<open>sizeof(REACPacketHeader)\<close> bytes; \<open>getCounter\<close> reads its 16-bit
  counter (the field \<open>counter\<close> and the accessor \<open>getCounter()\<close> are the same value).
  Sizes are natural numbers: the constants are small, and no size of the source
  reaches the range of its 32-bit types.
\<close>
record REACConstants =
  REAC_PACKETS_PER_SECOND :: "64 word"
  REAC_SAMPLES_PER_PACKET :: nat
  REAC_RESOLUTION :: nat
  PROTOCOL :: "byte \<times> byte"
  ENDING :: "byte \<times> byte"
  sizeof_REACPacketHeader :: nat
  getCounter :: "byte list \<Rightarrow> 16 word"

definition bytes2 :: "byte \<times> byte \<Rightarrow> byte list" where
  "bytes2 c = [fst c, snd c]"

definition sizeof_EthernetHeader :: nat where
  "sizeof_EthernetHeader = 14"

definition sizeof_ENDING :: nat where
  "sizeof_ENDING = 2"

definition REAC_CONNECTION_CHECK_TIMEOUT_MS :: "64 word" where
  "REAC_CONNECTION_CHECK_TIMEOUT_MS = 400"

definition REAC_TIMEOUT_UNTIL_DISCONNECT :: "64 word" where
  "REAC_TIMEOUT_UNTIL_DISCONNECT = 1000"

text \<open>
  The object. Its fields are declared in REACConnection.h, which is not among
  the sources: \<open>timeoutNS\<close> and \<open>nextTime\<close> are 64-bit (the source keeps the
  period in 64 bits and passes \<open>nextTime\<close> as the 64-bit result of the clock), the
  two connection counters are taken as 64-bit too, and \<open>lastCounter\<close> as the
  16-bit counter the source compares with 65535. The three callbacks are kept as
  flags (set or \<open>NULL\<close>); what they hand back is an input of the operation that
  calls them. The last three fields are the host resources the object holds:
  whether its timer event source is on the work loop, the timeout the timer is
  armed with, and whether the interface filter is attached.
\<close>
record REACConnection =
  timerEventSource :: bool
  connectionCounter :: "64 word"
  lastSeenConnectionCounter :: "64 word"
  deviceInfo :: REACDeviceInfo
  started :: bool
  connected :: bool
  lastCounter :: "16 word"
  connectionCallback :: bool
  samplesCallback :: bool
  getSamplesCallback :: bool
  mode :: REACMode
  timeoutNS :: "64 word"
  nextTime :: "64 word"
  timerOnWorkLoop :: bool
  timerTimeout :: "64 word option"
  filterAttached :: bool

text \<open>What the host and the callbacks answer during one operation.\<close>
record Environment =
  clock_uptime :: "64 word"
  addEventSource :: bool
  iflt_attach :: bool
  samplesCallback_buffer :: "nat option"
  getSamplesCallback_buffer :: "byte list option"
  processPacket :: "byte list option"
  mbuf_allocpacket :: "mbuf option"
  ifnet_output_raw :: bool

datatype logmsg =
    TimerAddFailed
  | ProcessPacketFailed
  | AllocatePacketFailed
  | CopyEthernetHeaderFailed
  | CopyREACHeaderFailed
  | CopySampleDataFailed
  | ZeroSampleDataFailed
  | CopyEndingFailed
  | SendPacketFailed
  | InvalidLength
  | FetchEndingFailed
  | IncorrectEnding
  | FetchHeaderFailed
  | LostPacket "16 word" "16 word"
  | IncorrectlySizedBuffer

text \<open>
  What an operation does to the outside, in order: log lines, the three
  callbacks, the sample bytes written into the sink's buffer, the header handed
  to the data stream, and the frame handed to the interface.
\<close>
datatype event =
    IOLog logmsg
  | ConnectionCallback "REACDeviceInfo option"
  | SamplesCallback
  | GetSamplesCallback
  | CopyAudioToBuffer "byte list"
  | GotPacket "byte list"
  | OutputRaw mbuf

fun isCallback :: "event \<Rightarrow> bool" where
  "isCallback (ConnectionCallback d) = True"
| "isCallback SamplesCallback = True"
| "isCallback GetSamplesCallback = True"
| "isCallback e = False"

fun isConnectionCallback :: "event \<Rightarrow> bool" where
  "isConnectionCallback (ConnectionCallback d) = True"
| "isConnectionCallback e = False"

subsection \<open>Buffer helpers\<close>

text \<open>
  Modelled from the spec: MbufUtils (MbufUtils.cpp) is not among the sources.
  The spec has the header, the sample block and the trailing marker laid out in
  order, the sample block "copied from the provided buffer, or zero-filled", so a
  copy writes \<open>len\<close> bytes of the buffer at the offset and fails when the range
  does not lie in the chain (or the buffer is shorter than \<open>len\<close>).
\<close>
definition copyFromBufferToMbuf :: "mbuf \<Rightarrow> nat \<Rightarrow> nat \<Rightarrow> byte list \<Rightarrow> mbuf option" where
  "copyFromBufferToMbuf m off len buf =
     (if off + len \<le> length m \<and> len \<le> length buf
      then Some (take off m @ take len buf @ drop (off + len) m)
      else None)"

text \<open>Modelled from the spec: MbufUtils is not among the sources (see above).\<close>
definition copyAudioFromBufferToMbuf :: "mbuf \<Rightarrow> nat \<Rightarrow> nat \<Rightarrow> byte list \<Rightarrow> mbuf option" where
  "copyAudioFromBufferToMbuf m off len buf = copyFromBufferToMbuf m off len buf"

text \<open>Modelled from the spec: MbufUtils is not among the sources (see above).\<close>
definition zeroMbuf :: "mbuf \<Rightarrow> nat \<Rightarrow> nat \<Rightarrow> mbuf option" where
  "zeroMbuf m off len =
     (if off + len \<le> length m
      then Some (take off m @ replicate len 0 @ drop (off + len) m)
      else None)"

text \<open>Modelled from the spec: MbufUtils is not among the sources (see above).\<close>
definition mbufTotalLength :: "mbuf \<Rightarrow> nat" where
  "mbufTotalLength m = length m"

text \<open>The kernel's \<open>mbuf_copydata\<close>: \<open>len\<close> bytes from the offset, an error out of range.\<close>
definition mbuf_copydata :: "mbuf \<Rightarrow> nat \<Rightarrow> nat \<Rightarrow> byte list option" where
  "mbuf_copydata m off len =
     (if off + len \<le> length m then Some (take len (drop off m)) else None)"

text \<open>Modelled from the spec: MbufUtils is not among the sources (see above).\<close>
definition copyAudioFromMbufToBuffer :: "mbuf \<Rightarrow> nat \<Rightarrow> nat \<Rightarrow> byte list" where
  "copyAudioFromMbufToBuffer m off len = take len (drop off m)"

subsection \<open>Construction\<close>

text \<open>The resources \<open>initWithInterface\<close> acquires; each may fail.\<close>
record InitEnvironment =
  workLoop_given :: bool
  commandGate_added :: bool
  timerEventSource_created :: bool
  dataStream_created :: bool
  deviceInfo_allocated :: bool

text \<open>
  \<open>initWithInterface\<close>: \<open>None\<close> is the \<open>Fail\<close> exit. In the master mode the period is
  one second divided by the packet rate, otherwise the connection check period.
\<close>
definition initWithInterface ::
  "REACConstants \<Rightarrow> InitEnvironment \<Rightarrow> REACMode \<Rightarrow> bool \<Rightarrow> bool \<Rightarrow> bool \<Rightarrow> REACConnection option" where
  "initWithInterface K ienv mode' connectionCallback' samplesCallback' getSamplesCallback' =
     (if \<not> workLoop_given ienv then None
      else if \<not> commandGate_added ienv then None
      else if \<not> timerEventSource_created ienv then None
      else if \<not> dataStream_created ienv then None
      else if \<not> deviceInfo_allocated ienv then None
      else Some \<lparr>
        timerEventSource = True,
        connectionCounter = 0,
        lastSeenConnectionCounter = 0,
        deviceInfo = \<lparr> addr = [0x00, 0x40, 0xab, 0xc4, 0x80, 0xf6],
                       in_channels = 16, out_channels = 8 \<rparr>,
        started = False,
        connected = False,
        lastCounter = 0,
        connectionCallback = connectionCallback',
        samplesCallback = samplesCallback',
        getSamplesCallback = getSamplesCallback',
        mode = mode',
        timeoutNS = (if mode' = REAC_MASTER
                     then 1000000000 div REAC_PACKETS_PER_SECOND K
                     else REAC_CONNECTION_CHECK_TIMEOUT_MS * 1000000),
        nextTime = 0,
        timerOnWorkLoop = False,
        timerTimeout = None,
        filterAttached = False \<rparr>)"

text \<open>
  \<open>isConnected()\<close> is declared in REACConnection.h, not among the sources; it reads
  the \<open>connected\<close> field.
\<close>
definition isConnected :: "REACConnection \<Rightarrow> bool" where
  "isConnected this = connected this"

subsection \<open>start and stop\<close>

text \<open>
  \<open>start()\<close>: the result, the object afterwards and the log. The timer is put on
  the work loop and armed before the filter is attached; the second failure exit
  returns at once.
\<close>
definition start :: "Environment \<Rightarrow> REACConnection \<Rightarrow> bool \<times> REACConnection \<times> event list" where
  "start env this =
     (if \<not> timerEventSource this \<or> \<not> addEventSource env
      then (False, this, [IOLog TimerAddFailed])
      else
        let this1 = this\<lparr> timerOnWorkLoop := True,
                          timerTimeout := Some (timeoutNS this),
                          nextTime := clock_uptime env + timeoutNS this \<rparr>
        in if \<not> iflt_attach env then (False, this1, [])
           else (True, this1\<lparr> filterAttached := True, started := True \<rparr>, []))"

definition stop :: "REACConnection \<Rightarrow> REACConnection \<times> event list" where
  "stop this =
     (if started this then
        let this1 = (if timerEventSource this
                     then this\<lparr> timerTimeout := None, timerOnWorkLoop := False \<rparr>
                     else this);
            ev = (if isConnected this1 \<and> connectionCallback this1
                  then [ConnectionCallback None] else [])
        in (this1\<lparr> filterAttached := False, started := False \<rparr>, ev)
      else (this, []))"

subsection \<open>The send half\<close>

text \<open>
  The copies of \<open>pushSamples\<close> after the chain is allocated: Ethernet header
  (both addresses \<open>0xff\<close>, then the protocol type), packet header, samples or
  zeros, ending. \<open>Inl\<close> is the log line of the copy that failed.
\<close>
definition fillPacket ::
  "REACConstants \<Rightarrow> REACConnection \<Rightarrow> byte list \<Rightarrow> mbuf \<Rightarrow> nat \<Rightarrow> byte list option \<Rightarrow> logmsg + mbuf" where
  "fillPacket K this rph m0 bufSize sampleBuffer =
     (let samplesSize = REAC_SAMPLES_PER_PACKET K * REAC_RESOLUTION K * out_channels (deviceInfo this);
          sampleOffset = sizeof_EthernetHeader + sizeof_REACPacketHeader K;
          endingOffset = sampleOffset + samplesSize;
          header = replicate 6 0xff @ replicate 6 0xff @ bytes2 (PROTOCOL K)
      in case copyFromBufferToMbuf m0 0 sizeof_EthernetHeader header of
           None \<Rightarrow> Inl CopyEthernetHeaderFailed
         | Some m1 \<Rightarrow>
       (case copyFromBufferToMbuf m1 sizeof_EthernetHeader (sizeof_REACPacketHeader K) rph of
           None \<Rightarrow> Inl CopyREACHeaderFailed
         | Some m2 \<Rightarrow>
       (case (case sampleBuffer of
                Some b \<Rightarrow>
                  (case copyAudioFromBufferToMbuf m2 sampleOffset bufSize b of
                     None \<Rightarrow> Inl CopySampleDataFailed | Some m \<Rightarrow> Inr m)
              | None \<Rightarrow>
                  (case zeroMbuf m2 sampleOffset samplesSize of
                     None \<Rightarrow> Inl ZeroSampleDataFailed | Some m \<Rightarrow> Inr m)) of
           Inl e \<Rightarrow> Inl e
         | Inr m3 \<Rightarrow>
       (case copyFromBufferToMbuf m3 endingOffset sizeof_ENDING (bytes2 (ENDING K)) of
           None \<Rightarrow> Inl CopyEndingFailed
         | Some m4 \<Rightarrow> Inr m4))))"

text \<open>
  \<open>pushSamples(bufSize, sampleBuffer)\<close>; \<open>None\<close> is a \<open>NULL\<close> buffer. The environment
  gives the header the data stream computes and the chain the allocation returns;
  a chain that is not \<open>packetLen\<close> long stands for \<open>setChainLength\<close> failing.
\<close>
definition pushSamples ::
  "REACConstants \<Rightarrow> Environment \<Rightarrow> REACConnection \<Rightarrow> nat \<Rightarrow> byte list option \<Rightarrow> IOReturn \<times> event list" where
  "pushSamples K env this bufSize sampleBuffer =
     (let samplesSize = REAC_SAMPLES_PER_PACKET K * REAC_RESOLUTION K * out_channels (deviceInfo this);
          sampleOffset = sizeof_EthernetHeader + sizeof_REACPacketHeader K;
          endingOffset = sampleOffset + samplesSize;
          packetLen = endingOffset + sizeof_ENDING
      in if \<not> (mode this = REAC_SLAVE \<or> mode this = REAC_MASTER) then (kIOReturnInvalid, [])
         else if samplesSize = bufSize \<and> sampleBuffer \<noteq> None then (kIOReturnBadArgument, [])
         else case processPacket env of
           None \<Rightarrow> (kIOReturnError, [IOLog ProcessPacketFailed])
         | Some rph \<Rightarrow>
         (case mbuf_allocpacket env of
           None \<Rightarrow> (kIOReturnError, [IOLog AllocatePacketFailed])
         | Some m0 \<Rightarrow>
             if length m0 \<noteq> packetLen then (kIOReturnError, [IOLog AllocatePacketFailed])
             else (case fillPacket K this rph m0 bufSize sampleBuffer of
               Inl e \<Rightarrow> (kIOReturnError, [IOLog e])
             | Inr m \<Rightarrow>
                 if \<not> ifnet_output_raw env
                 then (kIOReturnError, [OutputRaw m, IOLog SendPacketFailed])
                 else (kIOReturnSuccess, [OutputRaw m]))))"

text \<open>
  \<open>getAndPushSamples()\<close>: without a callback the buffer stays \<open>NULL\<close> and the size 0;
  a buffer the callback hands back comes with its size.
\<close>
definition getAndPushSamples ::
  "REACConstants \<Rightarrow> Environment \<Rightarrow> REACConnection \<Rightarrow> IOReturn \<times> event list" where
  "getAndPushSamples K env this =
     (if getSamplesCallback this then
        let sampleBuffer = getSamplesCallback_buffer env;
            bufSize = (case sampleBuffer of None \<Rightarrow> 0 | Some b \<Rightarrow> length b);
            r = pushSamples K env this bufSize sampleBuffer
        in (fst r, GetSamplesCallback # snd r)
      else pushSamples K env this 0 None)"

subsection \<open>The timer\<close>

text \<open>
  The connection check of \<open>timerFired\<close>: past the threshold the callback is called
  with \<open>NULL\<close> and the flag is assigned \<open>true\<close>; the counter goes up while connected.
\<close>
definition checkConnection :: "REACConnection \<Rightarrow> REACConnection \<times> event list" where
  "checkConnection proto =
     (if isConnected proto then
        let r = (if (connectionCounter proto - lastSeenConnectionCounter proto) * timeoutNS proto
                      > REAC_TIMEOUT_UNTIL_DISCONNECT * 1000000
                 then (proto\<lparr> connected := True \<rparr>,
                       if connectionCallback proto then [ConnectionCallback None] else [])
                 else (proto, []))
        in ((fst r)\<lparr> connectionCounter := connectionCounter (fst r) + 1 \<rparr>, snd r)
      else (proto, []))"

text \<open>
  \<open>timerFired\<close>: the connection check, the send half in the master mode, then the
  timer is armed again. \<open>diff\<close> is the scheduled time minus the time now, computed
  on signed 64-bit values in the source and added to the unsigned period: in two's
  complement that is the subtraction and the addition of 64-bit words.
\<close>
definition timerFired :: "REACConstants \<Rightarrow> Environment \<Rightarrow> REACConnection \<Rightarrow> REACConnection \<times> event list" where
  "timerFired K env proto =
     (let r = checkConnection proto;
          proto1 = fst r;
          ev = (if mode proto1 = REAC_MASTER then snd (getAndPushSamples K env proto1) else []);
          thisTimeNS = clock_uptime env;
          diff = nextTime proto1 - thisTimeNS
      in (proto1\<lparr> timerTimeout := Some (timeoutNS proto1 + diff),
                  nextTime := nextTime proto1 + timeoutNS proto1 \<rparr>,
          snd r @ ev))"

subsection \<open>The receive half\<close>

text \<open>
  The checks of \<open>filterCommandGateMsg\<close> on the packet: its length, its ending, and
  the fetch of the header. \<open>Inl\<close> is the log line of the check that failed, \<open>Inr\<close>
  the packet header.
\<close>
definition checkPacket :: "REACConstants \<Rightarrow> REACConnection \<Rightarrow> mbuf \<Rightarrow> logmsg + byte list" where
  "checkPacket K proto data =
     (let samplesSize = REAC_SAMPLES_PER_PACKET K * REAC_RESOLUTION K * in_channels (deviceInfo proto);
          len = mbufTotalLength data
      in if sizeof_REACPacketHeader K + samplesSize + 2 \<noteq> len then Inl InvalidLength
         else case mbuf_copydata data (sizeof_REACPacketHeader K + samplesSize) sizeof_ENDING of
           None \<Rightarrow> Inl FetchEndingFailed
         | Some packetEnding \<Rightarrow>
             if packetEnding \<noteq> bytes2 (ENDING K) then Inl IncorrectEnding
             else (case mbuf_copydata data 0 (sizeof_REACPacketHeader K) of
               None \<Rightarrow> Inl FetchHeaderFailed
             | Some packetHeader \<Rightarrow> Inr packetHeader))"

text \<open>
  The packet counter check: \<open>lastCounter + 1\<close> is computed on \<open>int\<close>, so after 65535
  it is 65536 and differs from every counter; the inner test lets 65535, 0 pass.
\<close>
definition checkCounter :: "REACConstants \<Rightarrow> REACConnection \<Rightarrow> byte list \<Rightarrow> event list" where
  "checkCounter K proto packetHeader =
     (if isConnected proto \<and> uint (lastCounter proto) + 1 \<noteq> uint (getCounter K packetHeader)
      then (if \<not> (lastCounter proto = 65535 \<and> getCounter K packetHeader = 0)
            then [IOLog (LostPacket (lastCounter proto) (getCounter K packetHeader))]
            else [])
      else [])"

definition announceConnect :: "REACConnection \<Rightarrow> REACConnection \<times> event list" where
  "announceConnect proto =
     (if \<not> isConnected proto
      then (proto\<lparr> connected := True \<rparr>,
            if connectionCallback proto then [ConnectionCallback (Some (deviceInfo proto))] else [])
      else (proto, []))"

text \<open>
  The delivery of the samples to the sink and the reply in the slave mode. The
  sink's callback hands back a buffer (\<open>None\<close> is \<open>NULL\<close>) with its size.
\<close>
definition deliverSamples ::
  "REACConstants \<Rightarrow> Environment \<Rightarrow> REACConnection \<Rightarrow> mbuf \<Rightarrow> byte list \<Rightarrow> event list" where
  "deliverSamples K env proto data packetHeader =
     (if isConnected proto then
        (if samplesCallback proto then
           SamplesCallback #
           (case samplesCallback_buffer env of
              None \<Rightarrow> []
            | Some inBufferSize \<Rightarrow>
                let bytesPerSample = REAC_RESOLUTION K * in_channels (deviceInfo proto);
                    bytesPerPacket = bytesPerSample * REAC_SAMPLES_PER_PACKET K
                in if inBufferSize \<noteq> bytesPerPacket then [IOLog IncorrectlySizedBuffer]
                   else [CopyAudioToBuffer
                           (copyAudioFromMbufToBuffer data (sizeof_REACPacketHeader K) inBufferSize)])
           @ [GotPacket packetHeader]
         else [])
        @ (if mode proto = REAC_SLAVE then snd (getAndPushSamples K env proto) else [])
      else [])"

definition filterCommandGateMsg ::
  "REACConstants \<Rightarrow> Environment \<Rightarrow> REACConnection \<Rightarrow> mbuf \<Rightarrow> REACConnection \<times> event list" where
  "filterCommandGateMsg K env proto data =
     (if mode proto = REAC_MASTER then (proto, [])
      else case checkPacket K proto data of
        Inl e \<Rightarrow> (proto, [IOLog e])
      | Inr packetHeader \<Rightarrow>
          let ev1 = checkCounter K proto packetHeader;
              r = announceConnect proto;
              proto1 = (fst r)\<lparr> lastSeenConnectionCounter := connectionCounter (fst r) \<rparr>;
              ev3 = deliverSamples K env proto1 data packetHeader
          in (proto1\<lparr> lastCounter := getCounter K packetHeader \<rparr>, ev1 @ snd r @ ev3))"

text \<open>
  \<open>filterInputFunc\<close>: the interface hands over the frame header and the data
  behind it. A frame whose type bytes are not the protocol's passes through
  (result 0); any other goes to \<open>filterCommandGateMsg\<close> and is consumed
  (\<open>EINPROGRESS\<close>, here 36).
\<close>
definition filterInputFunc ::
  "REACConstants \<Rightarrow> Environment \<Rightarrow> REACConnection \<Rightarrow> byte list \<Rightarrow> mbuf \<Rightarrow> nat \<times> REACConnection \<times> event list" where
  "filterInputFunc K env proto header data =
     (if \<not> (13 < length header \<and> fst (PROTOCOL K) = header ! 12 \<and> snd (PROTOCOL K) = header ! 13)
      then (0, proto, [])
      else (36, filterCommandGateMsg K env proto data))"

subsection \<open>Runs\<close>

datatype operation =
    Start Environment
  | Stop
  | TimerFired Environment
  | FilterCommandGateMsg Environment mbuf

fun step :: "REACConstants \<Rightarrow> REACConnection \<Rightarrow> operation \<Rightarrow> REACConnection \<times> event list" where
  "step K s (Start env) = snd (start env s)"
| "step K s Stop = stop s"
| "step K s (TimerFired env) = timerFired K env s"
| "step K s (FilterCommandGateMsg env data) = filterCommandGateMsg K env s data"

fun run :: "REACConstants \<Rightarrow> REACConnection \<Rightarrow> operation list \<Rightarrow> REACConnection \<times> event list" where
  "run K s [] = (s, [])"
| "run K s (x # xs) =
     (let r = step K s x; r' = run K (fst r) xs in (fst r', snd r @ snd r'))"

fun isLostPacket :: "event \<Rightarrow> bool" where
  "isLostPacket (IOLog (LostPacket a b)) = True"
| "isLostPacket e = False"

fun isOutputRaw :: "event \<Rightarrow> bool" where
  "isOutputRaw (OutputRaw m) = True"
| "isOutputRaw e = False"

text \<open>The packets a run receives, each with what the host answers while it is handled.\<close>
definition receive :: "(Environment \<times> mbuf) list \<Rightarrow> operation list" where
  "receive pkts = map (\<lambda>p. FilterCommandGateMsg (fst p) (snd p)) pkts"

subsection \<open>A concrete configuration\<close>

text \<open>
  Values for the constants the headers define: 8000 packets a second, 12
  samples of 3 bytes a packet, a 4-byte packet header with its counter in the
  first two bytes, low byte first.
\<close>
definition counterLE :: "byte list \<Rightarrow> 16 word" where
  "counterLE h = (case h of a # b # r \<Rightarrow> ucast a + 256 * ucast b | _ \<Rightarrow> 0)"

definition exampleConstants :: REACConstants where
  "exampleConstants = \<lparr> REAC_PACKETS_PER_SECOND = 8000, REAC_SAMPLES_PER_PACKET = 12,
     REAC_RESOLUTION = 3, PROTOCOL = (0x88, 0x19), ENDING = (0xc2, 0xea),
     sizeof_REACPacketHeader = 4, getCounter = counterLE \<rparr>"

definition allResources :: InitEnvironment where
  "allResources = \<lparr> workLoop_given = True, commandGate_added = True,
     timerEventSource_created = True, dataStream_created = True,
     deviceInfo_allocated = True \<rparr>"

text \<open>The object \<open>initWithInterface\<close> returns in a mode, with its three callbacks set.\<close>
definition exampleEngine :: "REACMode \<Rightarrow> REACConnection" where
  "exampleEngine m = \<lparr>
        timerEventSource = True,
        connectionCounter = 0,
        lastSeenConnectionCounter = 0,
        deviceInfo = \<lparr> addr = [0x00, 0x40, 0xab, 0xc4, 0x80, 0xf6],
                       in_channels = 16, out_channels = 8 \<rparr>,
        started = False,
        connected = False,
        lastCounter = 0,
        connectionCallback = True,
        samplesCallback = True,
        getSamplesCallback = True,
        mode = m,
        timeoutNS = (if m = REAC_MASTER then 125000 else 400000000),
        nextTime = 0,
        timerOnWorkLoop = False,
        timerTimeout = None,
        filterAttached = False \<rparr>"

text \<open>
  A host where everything succeeds: the sink offers a buffer of 576 bytes (16
  channels), the source has no samples, the allocation returns a chain of 308
  bytes (14 + 4 + 288 + 2) with old contents.
\<close>
definition exampleEnvironment :: Environment where
  "exampleEnvironment = \<lparr> clock_uptime = 0, addEventSource = True, iflt_attach = True,
     samplesCallback_buffer = Some 576, getSamplesCallback_buffer = None,
     processPacket = Some [0, 0, 0, 0], mbuf_allocpacket = Some (replicate 308 0xAA),
     ifnet_output_raw = True \<rparr>"

text \<open>An inbound packet for 16 channels: header, 576 sample bytes, ending.\<close>
definition examplePacket :: "byte \<Rightarrow> byte \<Rightarrow> mbuf" where
  "examplePacket lo hi = [lo, hi, 0, 0] @ replicate 576 0 @ [0xc2, 0xea]"

text \<open>A slave that has started and is connected.\<close>
definition connectedEngine :: REACConnection where
  "connectedEngine = (exampleEngine REAC_SLAVE)\<lparr> started := True, connected := True,
     timerOnWorkLoop := True, timerTimeout := Some 400000000, filterAttached := True \<rparr>"

text \<open>A packet of the right length whose last byte is not the ending's.\<close>
definition corruptedPacket :: mbuf where
  "corruptedPacket = [6, 0, 0, 0] @ replicate 576 0 @ [0xc2, 0xeb]"

text \<open>Three valid packets in a row, counters 0, 1, 2.\<close>
definition threePackets :: "(Environment \<times> mbuf) list" where
  "threePackets = [(exampleEnvironment, examplePacket 0 0), (exampleEnvironment, examplePacket 1 0),
     (exampleEnvironment, examplePacket 2 0)]"

text \<open>A slave starts, receives one valid packet, and its timer fires three times.\<close>
definition idleRun :: "operation list" where
  "idleRun = [Start exampleEnvironment,
     FilterCommandGateMsg exampleEnvironment (examplePacket 0 0),
     TimerFired exampleEnvironment, TimerFired exampleEnvironment,
     TimerFired exampleEnvironment]"

text \<open>The object after that: connected, three periods of 400 ms since the last packet.\<close>
definition idleEngine :: REACConnection where
  "idleEngine = connectedEngine\<lparr> connectionCounter := 3, nextTime := 1600000000,
     timerTimeout := Some 1600000000 \<rparr>"

text \<open>
  A host whose sample source hands back a buffer of exactly 288 bytes, the size
  of the sample block for 8 output channels, while the data stream computes the
  header 5, 0, 1, 2.
\<close>
definition exactBufferEnvironment :: Environment where
  "exactBufferEnvironment = exampleEnvironment\<lparr>
     getSamplesCallback_buffer := Some (replicate 288 7), processPacket := Some [5, 0, 1, 2] \<rparr>"

section \<open>Properties\<close>

subsection \<open>The concrete configuration\<close>

lemma init_example:
  "initWithInterface exampleConstants allResources m True True True = Some (exampleEngine m)"
  by (cases m) (simp_all add: initWithInterface_def exampleEngine_def exampleConstants_def
      REAC_CONNECTION_CHECK_TIMEOUT_MS_def allResources_def)

lemma checkPacket_example:
  "checkPacket exampleConstants (exampleEngine m) (examplePacket lo hi) = Inr [lo, hi, 0, 0]"
  by (simp add: checkPacket_def exampleConstants_def exampleEngine_def examplePacket_def
      mbufTotalLength_def mbuf_copydata_def sizeof_ENDING_def bytes2_def Let_def)

subsection \<open>What the send half emits\<close>

lemma fillPacket_Inl:
  "fillPacket K s rph m0 n b = Inl e \<Longrightarrow>
     e \<in> {CopyEthernetHeaderFailed, CopyREACHeaderFailed, CopySampleDataFailed,
          ZeroSampleDataFailed, CopyEndingFailed}"
  by (auto simp: fillPacket_def Let_def split: option.splits sum.splits)

lemma pushSamples_events:
  "e \<in> set (snd (pushSamples K env s n b)) \<Longrightarrow> \<not> isCallback e \<and> \<not> isLostPacket e"
  by (auto simp: pushSamples_def Let_def split: option.splits sum.splits if_splits
      dest!: fillPacket_Inl)

lemma getAndPushSamples_events:
  "e \<in> set (snd (getAndPushSamples K env s)) \<Longrightarrow> \<not> isConnectionCallback e \<and> \<not> isLostPacket e"
  using pushSamples_events [of e K env s]
  by (cases e) (auto simp: getAndPushSamples_def Let_def split: if_splits)

lemma deliverSamples_events:
  "e \<in> set (deliverSamples K env s data h) \<Longrightarrow> \<not> isConnectionCallback e \<and> \<not> isLostPacket e"
  using getAndPushSamples_events [of e K env s]
  by (auto simp: deliverSamples_def Let_def split: if_splits option.splits)

lemma filter_empty_events:
  "(\<And>e. e \<in> set evs \<Longrightarrow> \<not> P e) \<Longrightarrow> filter P evs = []"
  by (simp add: filter_empty_conv)

lemma deliverSamples_noConn: "filter isConnectionCallback (deliverSamples K env s data h) = []"
  by (rule filter_empty_events) (simp add: deliverSamples_events)

lemma deliverSamples_noLost: "filter isLostPacket (deliverSamples K env s data h) = []"
  by (rule filter_empty_events) (simp add: deliverSamples_events)

lemma checkCounter_noConn: "filter isConnectionCallback (checkCounter K s h) = []"
  by (simp add: checkCounter_def)

subsection \<open>The connected flag\<close>

lemma stop_connected: "connected (fst (stop s)) = connected s"
  by (simp add: stop_def Let_def)

lemma start_connected: "connected (fst (snd (start env s))) = connected s"
  by (simp add: start_def Let_def)

lemma checkConnection_connected: "connected s \<Longrightarrow> connected (fst (checkConnection s))"
  by (simp add: checkConnection_def Let_def isConnected_def)

lemma timerFired_connected: "connected s \<Longrightarrow> connected (fst (timerFired K env s))"
  by (simp add: timerFired_def Let_def checkConnection_connected)

lemma filterCommandGateMsg_connected:
  "connected s \<Longrightarrow> connected (fst (filterCommandGateMsg K env s data))"
  by (simp add: filterCommandGateMsg_def Let_def announceConnect_def isConnected_def
      split: sum.splits)

lemma step_connected: "connected s \<Longrightarrow> connected (fst (step K s x))"
  by (cases x) (simp_all add: stop_connected start_connected timerFired_connected
      filterCommandGateMsg_connected)

lemma run_connected: "connected s \<Longrightarrow> connected (fst (run K s ops))"
proof (induction ops arbitrary: s)
  case Nil
  then show ?case by simp
next
  case (Cons x xs)
  from Cons.prems have "connected (fst (step K s x))" by (rule step_connected)
  then have "connected (fst (run K (fst (step K s x)) xs))" by (rule Cons.IH)
  then show ?case by (simp add: Let_def)
qed

text \<open>
  C10: the connected flag is monotone. Once it is set, the handling of an inbound
  frame, a firing of the timer (its idle branch included) and \<open>stop()\<close> each leave it
  set, so \<open>isConnected()\<close> is true after any sequence of operations.
\<close>
theorem connected_monotone:
  "connected s \<Longrightarrow>
     connected (fst (filterCommandGateMsg K env s data))
     \<and> connected (fst (timerFired K env s))
     \<and> connected (fst (stop s))
     \<and> isConnected (fst (run K s ops))"
  by (simp add: filterCommandGateMsg_connected timerFired_connected stop_connected
      run_connected isConnected_def)

theorem connected_monotone_witness:
  "connected connectedEngine
   \<and> connected (fst (filterCommandGateMsg exampleConstants exampleEnvironment connectedEngine []))
   \<and> connected (fst (timerFired exampleConstants exampleEnvironment connectedEngine))
   \<and> connected (fst (stop connectedEngine))
   \<and> isConnected (fst (run exampleConstants connectedEngine
        [TimerFired exampleEnvironment, Stop, Start exampleEnvironment,
         FilterCommandGateMsg exampleEnvironment (examplePacket 0 0)]))"
proof -
  have c: "connected connectedEngine"
    by (simp add: connectedEngine_def)
  from c connected_monotone [OF c, of exampleConstants exampleEnvironment "[]"
      "[TimerFired exampleEnvironment, Stop, Start exampleEnvironment,
         FilterCommandGateMsg exampleEnvironment (examplePacket 0 0)]"]
  show ?thesis by blast
qed

subsection \<open>Malformed frames\<close>

text \<open>
  C6: a malformed inbound frame, one of the wrong total length or of the right
  length with other bytes than the ending in the trailing position, is dropped:
  the object is what it was (\<open>lastCounter\<close> and \<open>lastSeenConnectionCounter\<close>
  included), no callback is called, and the only effect is one log line.
\<close>
theorem malformed_frame_dropped:
  "length data \<noteq> sizeof_REACPacketHeader K
              + REAC_SAMPLES_PER_PACKET K * REAC_RESOLUTION K * in_channels (deviceInfo proto) + 2
           \<or> drop (sizeof_REACPacketHeader K
              + REAC_SAMPLES_PER_PACKET K * REAC_RESOLUTION K * in_channels (deviceInfo proto)) data
             \<noteq> bytes2 (ENDING K)
   \<Longrightarrow> fst (filterCommandGateMsg K env proto data) = proto
         \<and> filter isCallback (snd (filterCommandGateMsg K env proto data)) = []
         \<and> set (snd (filterCommandGateMsg K env proto data))
             \<subseteq> {IOLog InvalidLength, IOLog IncorrectEnding}"
proof -
  assume a: "length data \<noteq> sizeof_REACPacketHeader K
              + REAC_SAMPLES_PER_PACKET K * REAC_RESOLUTION K * in_channels (deviceInfo proto) + 2
           \<or> drop (sizeof_REACPacketHeader K
              + REAC_SAMPLES_PER_PACKET K * REAC_RESOLUTION K * in_channels (deviceInfo proto)) data
             \<noteq> bytes2 (ENDING K)"
  have "\<exists>e. checkPacket K proto data = Inl e \<and> (e = InvalidLength \<or> e = IncorrectEnding)"
    using a
    by (auto simp: checkPacket_def Let_def mbufTotalLength_def mbuf_copydata_def sizeof_ENDING_def)
  then show ?thesis
    by (auto simp: filterCommandGateMsg_def)
qed

theorem malformed_frame_dropped_witness:
  "length (examplePacket 6 0 @ [0]) \<noteq> 4 + 12 * 3 * 16 + 2
   \<and> fst (filterCommandGateMsg exampleConstants exampleEnvironment connectedEngine
        (examplePacket 6 0 @ [0])) = connectedEngine
   \<and> filter isCallback (snd (filterCommandGateMsg exampleConstants exampleEnvironment
        connectedEngine (examplePacket 6 0 @ [0]))) = []
   \<and> length corruptedPacket = 4 + 12 * 3 * 16 + 2
   \<and> drop (4 + 12 * 3 * 16) corruptedPacket \<noteq> [0xc2, 0xea]
   \<and> fst (filterCommandGateMsg exampleConstants exampleEnvironment connectedEngine
        corruptedPacket) = connectedEngine
   \<and> filter isCallback (snd (filterCommandGateMsg exampleConstants exampleEnvironment
        connectedEngine corruptedPacket)) = []"
proof -
  have l: "length (examplePacket 6 0 @ [0]) \<noteq> 4 + 12 * 3 * 16 + 2"
    by (simp add: examplePacket_def)
  have c: "length corruptedPacket = 4 + 12 * 3 * 16 + 2"
    "drop (4 + 12 * 3 * 16) corruptedPacket \<noteq> [0xc2, 0xea]"
    by (simp_all add: corruptedPacket_def)
  have k: "sizeof_REACPacketHeader exampleConstants
              + REAC_SAMPLES_PER_PACKET exampleConstants * REAC_RESOLUTION exampleConstants
                * in_channels (deviceInfo connectedEngine) = 4 + 12 * 3 * 16"
    "bytes2 (ENDING exampleConstants) = [0xc2, 0xea]"
    by (simp_all add: exampleConstants_def connectedEngine_def exampleEngine_def bytes2_def)
  from malformed_frame_dropped [of "examplePacket 6 0 @ [0]" exampleConstants connectedEngine
      exampleEnvironment]
    malformed_frame_dropped [of corruptedPacket exampleConstants connectedEngine
      exampleEnvironment] l c k
  show ?thesis by simp
qed


subsection \<open>The packet counter\<close>

lemma u16_successor:
  "(uint (l :: 16 word) + 1 \<noteq> uint (c :: 16 word) \<and> \<not> (l = 65535 \<and> c = 0)) \<longleftrightarrow> l + 1 \<noteq> c"
proof -
  have b: "0 \<le> uint l" "uint l < 65536" "0 \<le> uint c" "uint c < 65536"
    using uint_lt2p [of l] uint_lt2p [of c] by simp_all
  have e: "(l + 1 = c) = ((uint l + 1) mod 65536 = uint c)"
    by (simp add: word_uint_eq_iff uint_word_ariths)
  have l: "(l = 65535) = (uint l = 65535)"
    by (simp add: word_uint_eq_iff)
  have c: "(c = 0) = (uint c = 0)"
    by (simp add: word_uint_eq_iff)
  show ?thesis
  proof (cases "uint l = 65535")
    case True
    then show ?thesis unfolding e l c using b by simp
  next
    case False
    with b have "uint l + 1 < 65536" by simp
    then have "(uint l + 1) mod 65536 = uint l + 1" using b by simp
    then show ?thesis unfolding e l c using False by simp
  qed
qed

lemma checkCounter_lost:
  "filter isLostPacket (checkCounter K s h)
   = (if connected s \<and> lastCounter s + 1 \<noteq> getCounter K h
      then [IOLog (LostPacket (lastCounter s) (getCounter K h))] else [])"
  using u16_successor [of "lastCounter s" "getCounter K h"]
  by (auto simp: checkCounter_def isConnected_def)

lemma announceConnect_noLost: "filter isLostPacket (snd (announceConnect s)) = []"
  by (simp add: announceConnect_def)

lemma filterCommandGateMsg_lost:
  assumes "mode s \<noteq> REAC_MASTER" and "checkPacket K s data = Inr h"
  shows "filter isLostPacket (snd (filterCommandGateMsg K env s data))
           = (if connected s \<and> lastCounter s + 1 \<noteq> getCounter K h
              then [IOLog (LostPacket (lastCounter s) (getCounter K h))] else [])"
  using assms
  by (simp add: filterCommandGateMsg_def Let_def checkCounter_lost announceConnect_noLost
      deliverSamples_noLost)

text \<open>
  C4: on a valid inbound packet, a last counter of 65535 followed by a counter of
  0 is not logged as a lost packet; a last counter of 5 followed by 7 is, on a
  connected object; and nothing is logged as lost while the object is not yet
  connected. In general the line is logged exactly when the object is connected
  and the counter is not the 16-bit successor of the last one.
\<close>
theorem sequence_gap_detection:
  "mode s \<noteq> REAC_MASTER \<Longrightarrow> checkPacket K s data = Inr h \<Longrightarrow>
     (lastCounter s = 65535 \<and> getCounter K h = 0
        \<longrightarrow> filter isLostPacket (snd (filterCommandGateMsg K env s data)) = [])
     \<and> (connected s \<and> lastCounter s = 5 \<and> getCounter K h = 7
        \<longrightarrow> filter isLostPacket (snd (filterCommandGateMsg K env s data))
            = [IOLog (LostPacket 5 7)])
     \<and> (\<not> connected s
        \<longrightarrow> filter isLostPacket (snd (filterCommandGateMsg K env s data)) = [])
     \<and> filter isLostPacket (snd (filterCommandGateMsg K env s data))
         = (if connected s \<and> lastCounter s + 1 \<noteq> getCounter K h
            then [IOLog (LostPacket (lastCounter s) (getCounter K h))] else [])"
  by (simp add: filterCommandGateMsg_lost)

theorem sequence_gap_detection_witness:
  "mode connectedEngine \<noteq> REAC_MASTER
   \<and> checkPacket exampleConstants connectedEngine (examplePacket 0 0) = Inr [0, 0, 0, 0]
   \<and> getCounter exampleConstants [0, 0, 0, 0] = 0
   \<and> filter isLostPacket (snd (filterCommandGateMsg exampleConstants exampleEnvironment
        (connectedEngine\<lparr> lastCounter := 65535 \<rparr>) (examplePacket 0 0))) = []
   \<and> checkPacket exampleConstants connectedEngine (examplePacket 7 0) = Inr [7, 0, 0, 0]
   \<and> getCounter exampleConstants [7, 0, 0, 0] = 7
   \<and> filter isLostPacket (snd (filterCommandGateMsg exampleConstants exampleEnvironment
        (connectedEngine\<lparr> lastCounter := 5 \<rparr>) (examplePacket 7 0))) = [IOLog (LostPacket 5 7)]
   \<and> \<not> connected (exampleEngine REAC_SLAVE)
   \<and> filter isLostPacket (snd (filterCommandGateMsg exampleConstants exampleEnvironment
        (exampleEngine REAC_SLAVE) (examplePacket 7 0))) = []"
proof -
  have m: "mode (connectedEngine\<lparr> lastCounter := x \<rparr>) \<noteq> REAC_MASTER"
    "mode (exampleEngine REAC_SLAVE) \<noteq> REAC_MASTER" for x
    by (simp_all add: connectedEngine_def exampleEngine_def)
  have p: "checkPacket exampleConstants (connectedEngine\<lparr> lastCounter := x \<rparr>) (examplePacket lo hi)
      = Inr [lo, hi, 0, 0]" for x lo hi
    using checkPacket_example [of REAC_SLAVE lo hi]
    by (simp add: checkPacket_def connectedEngine_def exampleEngine_def)
  have p0: "checkPacket exampleConstants connectedEngine (examplePacket lo hi)
      = Inr [lo, hi, 0, 0]" for lo hi
    using checkPacket_example [of REAC_SLAVE lo hi]
    by (simp add: checkPacket_def connectedEngine_def exampleEngine_def)
  have g: "getCounter exampleConstants [0, 0, 0, 0] = 0" "getCounter exampleConstants [7, 0, 0, 0] = 7"
    by (simp_all add: exampleConstants_def counterLE_def)
  have c: "connected (connectedEngine\<lparr> lastCounter := x \<rparr>)"
    "lastCounter (connectedEngine\<lparr> lastCounter := x \<rparr>) = x"
    "\<not> connected (exampleEngine REAC_SLAVE)" for x
    by (simp_all add: connectedEngine_def exampleEngine_def)
  from sequence_gap_detection [OF m(1) p, of 65535 0 0 exampleEnvironment]
    sequence_gap_detection [OF m(1) p, of 5 7 0 exampleEnvironment]
    sequence_gap_detection [OF m(2) checkPacket_example, of 7 0 exampleEnvironment]
    m p0 g c
  show ?thesis by simp
qed

subsection \<open>The connect edge\<close>

lemma filterCommandGateMsg_connected_quiet:
  "connected s \<Longrightarrow> filter isConnectionCallback (snd (filterCommandGateMsg K env s data)) = []"
  by (simp add: filterCommandGateMsg_def Let_def announceConnect_def isConnected_def
      checkCounter_noConn deliverSamples_noConn split: sum.splits)

lemma filterCommandGateMsg_connects:
  assumes "mode s \<noteq> REAC_MASTER" and "\<not> connected s" and "checkPacket K s data = Inr h"
  shows "connected (fst (filterCommandGateMsg K env s data))"
    and "filter isConnectionCallback (snd (filterCommandGateMsg K env s data))
         = (if connectionCallback s then [ConnectionCallback (Some (deviceInfo s))] else [])"
  using assms
  by (simp_all add: filterCommandGateMsg_def Let_def announceConnect_def isConnected_def
      checkCounter_noConn deliverSamples_noConn)

lemma receive_connected_quiet:
  "connected s \<Longrightarrow>
     filter isConnectionCallback (snd (run K s (receive pkts))) = []
     \<and> connected (fst (run K s (receive pkts)))"
proof (induction pkts arbitrary: s)
  case Nil
  then show ?case by (simp add: receive_def)
next
  case (Cons p pkts)
  let ?s1 = "fst (filterCommandGateMsg K (fst p) s (snd p))"
  from Cons.prems have c1: "connected ?s1" by (rule filterCommandGateMsg_connected)
  have q: "filter isConnectionCallback (snd (filterCommandGateMsg K (fst p) s (snd p))) = []"
    using Cons.prems by (rule filterCommandGateMsg_connected_quiet)
  from Cons.IH [OF c1] q show ?case
    by (simp add: receive_def Let_def)
qed

lemma master_ignores: "mode s = REAC_MASTER \<Longrightarrow> filterCommandGateMsg K env s data = (s, [])"
  by (simp add: filterCommandGateMsg_def)

text \<open>
  C3, amended: on an object that is not connected, has a connection callback and
  is not in the master mode, the first valid inbound packet sets the connected
  flag and calls the connection callback with the device information, and over
  any non-empty sequence of valid inbound packets that callback is called exactly
  once. In the master mode an inbound packet is ignored: nothing changes and
  nothing is called.
\<close>
theorem connect_edge_once:
  assumes "\<not> connected s" and "connectionCallback s"
    and "pkts \<noteq> []"
    and "\<forall>p \<in> set pkts. \<exists>h. checkPacket K s (snd p) = Inr h"
  shows "(mode s \<noteq> REAC_MASTER \<longrightarrow>
            filter isConnectionCallback
                (snd (filterCommandGateMsg K (fst (hd pkts)) s (snd (hd pkts))))
              = [ConnectionCallback (Some (deviceInfo s))]
            \<and> filter isConnectionCallback (snd (run K s (receive pkts)))
              = [ConnectionCallback (Some (deviceInfo s))]
            \<and> connected (fst (run K s (receive pkts))))
         \<and> (mode s = REAC_MASTER \<longrightarrow>
              filterCommandGateMsg K (fst (hd pkts)) s (snd (hd pkts)) = (s, []))"
proof (intro conjI impI)
  assume m: "mode s \<noteq> REAC_MASTER"
  from assms(3) obtain p ps where pk: "pkts = p # ps" by (cases pkts) auto
  with assms(4) obtain h where h: "checkPacket K s (snd p) = Inr h" by auto
  let ?r = "filterCommandGateMsg K (fst p) s (snd p)"
  have c1: "connected (fst ?r)"
    using m assms(1) h by (rule filterCommandGateMsg_connects)
  have e1: "filter isConnectionCallback (snd ?r) = [ConnectionCallback (Some (deviceInfo s))]"
    using filterCommandGateMsg_connects(2) [OF m assms(1) h] assms(2) by simp
  from e1 show "filter isConnectionCallback
      (snd (filterCommandGateMsg K (fst (hd pkts)) s (snd (hd pkts))))
           = [ConnectionCallback (Some (deviceInfo s))]"
    by (simp add: pk)
  from receive_connected_quiet [OF c1, of K ps] e1
  show "filter isConnectionCallback (snd (run K s (receive pkts)))
           = [ConnectionCallback (Some (deviceInfo s))]"
    by (simp add: pk receive_def Let_def)
  from receive_connected_quiet [OF c1, of K ps]
  show "connected (fst (run K s (receive pkts)))"
    by (simp add: pk receive_def Let_def)
next
  assume "mode s = REAC_MASTER"
  then show "filterCommandGateMsg K (fst (hd pkts)) s (snd (hd pkts)) = (s, [])"
    by (rule master_ignores)
qed

theorem connect_edge_once_witness:
  "\<not> connected (exampleEngine REAC_SLAVE)
   \<and> connectionCallback (exampleEngine REAC_SLAVE)
   \<and> mode (exampleEngine REAC_SLAVE) \<noteq> REAC_MASTER
   \<and> checkPacket exampleConstants (exampleEngine REAC_SLAVE) (examplePacket 0 0) = Inr [0, 0, 0, 0]
   \<and> checkPacket exampleConstants (exampleEngine REAC_SLAVE) (examplePacket 1 0) = Inr [1, 0, 0, 0]
   \<and> checkPacket exampleConstants (exampleEngine REAC_SLAVE) (examplePacket 2 0) = Inr [2, 0, 0, 0]
   \<and> filter isConnectionCallback
        (snd (run exampleConstants (exampleEngine REAC_SLAVE) (receive threePackets)))
      = [ConnectionCallback (Some (deviceInfo (exampleEngine REAC_SLAVE)))]
   \<and> connected (fst (run exampleConstants (exampleEngine REAC_SLAVE) (receive threePackets)))"
proof -
  have a: "\<not> connected (exampleEngine REAC_SLAVE)" "connectionCallback (exampleEngine REAC_SLAVE)"
    "mode (exampleEngine REAC_SLAVE) \<noteq> REAC_MASTER"
    by (simp_all add: exampleEngine_def)
  have n: "threePackets \<noteq> []"
    by (simp add: threePackets_def)
  have v: "\<forall>p \<in> set threePackets.
      \<exists>h. checkPacket exampleConstants (exampleEngine REAC_SLAVE) (snd p) = Inr h"
    by (simp add: threePackets_def checkPacket_example)
  from connect_edge_once [OF a(1,2) n v] a checkPacket_example [of REAC_SLAVE]
  show ?thesis by simp
qed

theorem connect_master_counterexample:
  "mode (exampleEngine REAC_MASTER) = REAC_MASTER
   \<and> \<not> connected (exampleEngine REAC_MASTER)
   \<and> connectionCallback (exampleEngine REAC_MASTER)
   \<and> checkPacket exampleConstants (exampleEngine REAC_MASTER) (examplePacket 0 0) = Inr [0, 0, 0, 0]
   \<and> \<not> connected (fst (filterCommandGateMsg exampleConstants exampleEnvironment
          (exampleEngine REAC_MASTER) (examplePacket 0 0)))
   \<and> snd (filterCommandGateMsg exampleConstants exampleEnvironment
          (exampleEngine REAC_MASTER) (examplePacket 0 0)) = []"
  by (simp add: checkPacket_example filterCommandGateMsg_def) (simp add: exampleEngine_def)


subsection \<open>The timer\<close>

lemma timerFired_timer:
  "timerTimeout (fst (timerFired K env proto))
     = Some (timeoutNS proto + (nextTime proto - clock_uptime env))"
  "nextTime (fst (timerFired K env proto)) = nextTime proto + timeoutNS proto"
  "timeoutNS (fst (timerFired K env proto)) = timeoutNS proto"
  by (simp_all add: timerFired_def Let_def checkConnection_def)

lemma run_timer:
  "nextTime (fst (run K s (map TimerFired envs))) = nextTime s + of_nat (length envs) * timeoutNS s
   \<and> timeoutNS (fst (run K s (map TimerFired envs))) = timeoutNS s"
proof (induction envs arbitrary: s)
  case Nil
  then show ?case by simp
next
  case (Cons e envs)
  from Cons.IH [of "fst (timerFired K e s)"] show ?case
    by (simp add: Let_def timerFired_timer algebra_simps)
qed

lemma uint_signed_sum:
  assumes "0 \<le> uint t + (uint n - uint c)" and "uint t + (uint n - uint c) < 2 ^ 64"
  shows "uint ((t :: 64 word) + (n - c)) = uint t + (uint n - uint c)"
proof -
  have "uint (t + (n - c)) = (uint t + (uint n - uint c)) mod 2 ^ 64"
    by (simp add: uint_word_ariths mod_add_right_eq)
  also have "\<dots> = uint t + (uint n - uint c)"
    using assms by simp
  finally show ?thesis .
qed

text \<open>
  C9: every firing of the timer arms it again with the period plus the signed
  difference between the scheduled time and the time now (the integer
  \<open>timeoutNS + (nextTime - now)\<close> wherever that fits 64 bits), and moves the
  scheduled time on by exactly one period. The new timeout, counted from now,
  ends at the new scheduled time, and after any number of firings the scheduled
  time is the first one plus that many periods, whenever the firings came.
\<close>
theorem timer_drift_correction:
  "timerTimeout (fst (timerFired K env proto))
     = Some (timeoutNS proto + (nextTime proto - clock_uptime env))
   \<and> (0 \<le> uint (timeoutNS proto) + (uint (nextTime proto) - uint (clock_uptime env))
      \<and> uint (timeoutNS proto) + (uint (nextTime proto) - uint (clock_uptime env)) < 2 ^ 64
      \<longrightarrow> map_option uint (timerTimeout (fst (timerFired K env proto)))
          = Some (uint (timeoutNS proto) + (uint (nextTime proto) - uint (clock_uptime env))))
   \<and> nextTime (fst (timerFired K env proto)) = nextTime proto + timeoutNS proto
   \<and> timeoutNS (fst (timerFired K env proto)) = timeoutNS proto
   \<and> map_option (\<lambda>t. clock_uptime env + t) (timerTimeout (fst (timerFired K env proto)))
       = Some (nextTime (fst (timerFired K env proto)))
   \<and> nextTime (fst (run K proto (map TimerFired envs)))
       = nextTime proto + of_nat (length envs) * timeoutNS proto"
  by (simp add: timerFired_timer run_timer uint_signed_sum)


theorem timer_drift_correction_witness:
  "timerTimeout (fst (timerFired exampleConstants (exampleEnvironment\<lparr> clock_uptime := 1000300 \<rparr>)
       (connectedEngine\<lparr> nextTime := 1000000 \<rparr>))) = Some 399999700
   \<and> nextTime (fst (timerFired exampleConstants (exampleEnvironment\<lparr> clock_uptime := 1000300 \<rparr>)
       (connectedEngine\<lparr> nextTime := 1000000 \<rparr>))) = 401000000
   \<and> nextTime (fst (run exampleConstants (connectedEngine\<lparr> nextTime := 1000000 \<rparr>)
       (map TimerFired [exampleEnvironment\<lparr> clock_uptime := 1000300 \<rparr>,
          exampleEnvironment\<lparr> clock_uptime := 400999000 \<rparr>,
          exampleEnvironment\<lparr> clock_uptime := 801000000 \<rparr>]))) = 1201000000"
proof -
  have v: "timeoutNS (connectedEngine\<lparr> nextTime := 1000000 \<rparr>) = 400000000"
    "nextTime (connectedEngine\<lparr> nextTime := 1000000 \<rparr>) = 1000000"
    "clock_uptime (exampleEnvironment\<lparr> clock_uptime := 1000300 \<rparr>) = 1000300"
    by (simp_all add: connectedEngine_def exampleEngine_def)
  from timer_drift_correction [of exampleConstants "exampleEnvironment\<lparr> clock_uptime := 1000300 \<rparr>"
      "connectedEngine\<lparr> nextTime := 1000000 \<rparr>"
      "[exampleEnvironment\<lparr> clock_uptime := 1000300 \<rparr>,
          exampleEnvironment\<lparr> clock_uptime := 400999000 \<rparr>,
          exampleEnvironment\<lparr> clock_uptime := 801000000 \<rparr>]"]
  show ?thesis unfolding v by simp
qed


subsection \<open>stop and start\<close>

text \<open>
  C8, amended: \<open>stop()\<close> is idempotent and safe before \<open>start()\<close> or after a
  \<open>stop()\<close>. On a started object it cancels the timer and takes it off the work
  loop, detaches the filter, calls the connection callback (when there is one)
  with \<open>NULL\<close> exactly once if and only if \<open>isConnected()\<close> holds at the call, and
  clears the started flag. On an object that is not started it does nothing, so a
  second \<open>stop()\<close> in a row calls nothing.
\<close>
theorem stop_idempotent:
  "stop (fst (stop s)) = (fst (stop s), [])
   \<and> (\<not> started s \<longrightarrow> stop s = (s, []))
   \<and> (started s \<and> timerEventSource s
        \<longrightarrow> timerTimeout (fst (stop s)) = None \<and> \<not> timerOnWorkLoop (fst (stop s)))
   \<and> (started s \<longrightarrow> \<not> filterAttached (fst (stop s)))
   \<and> \<not> started (fst (stop s))
   \<and> snd (stop s) = (if started s \<and> isConnected s \<and> connectionCallback s
                      then [ConnectionCallback None] else [])"
  by (simp add: stop_def Let_def isConnected_def)

theorem stop_idempotent_witness:
  "started connectedEngine \<and> timerEventSource connectedEngine
   \<and> isConnected connectedEngine \<and> connectionCallback connectedEngine
   \<and> snd (stop connectedEngine) = [ConnectionCallback None]
   \<and> timerTimeout (fst (stop connectedEngine)) = None
   \<and> \<not> timerOnWorkLoop (fst (stop connectedEngine))
   \<and> \<not> filterAttached (fst (stop connectedEngine))
   \<and> \<not> started (fst (stop connectedEngine))
   \<and> stop (fst (stop connectedEngine)) = (fst (stop connectedEngine), [])
   \<and> \<not> started (exampleEngine REAC_SLAVE)
   \<and> stop (exampleEngine REAC_SLAVE) = (exampleEngine REAC_SLAVE, [])"
proof -
  have a: "started connectedEngine" "timerEventSource connectedEngine"
    "isConnected connectedEngine" "connectionCallback connectedEngine"
    "\<not> started (exampleEngine REAC_SLAVE)"
    by (simp_all add: connectedEngine_def exampleEngine_def isConnected_def)
  from stop_idempotent [of connectedEngine] stop_idempotent [of "exampleEngine REAC_SLAVE"] a
  show ?thesis by simp
qed

theorem stop_keeps_connected_counterexample:
  "started connectedEngine \<and> isConnected connectedEngine
   \<and> isConnected (fst (stop connectedEngine))
   \<and> snd (stop (fst (stop connectedEngine))) = []"
  by (simp add: stop_def Let_def isConnected_def connectedEngine_def exampleEngine_def)


text \<open>
  C7, as the code behaves: when \<open>start()\<close> fails at the attachment of the filter,
  it reports the failure, but the timer it has put on the work loop and armed just
  before stays there, and a later \<open>stop()\<close> does not cancel it either, since the
  object is not started.
\<close>
theorem start_filter_failure:
  "timerEventSource s \<Longrightarrow> addEventSource env \<Longrightarrow> \<not> iflt_attach env \<Longrightarrow> \<not> started s \<Longrightarrow>
     \<not> fst (start env s)
     \<and> timerTimeout (fst (snd (start env s))) = Some (timeoutNS s)
     \<and> timerOnWorkLoop (fst (snd (start env s)))
     \<and> \<not> started (fst (snd (start env s)))
     \<and> stop (fst (snd (start env s))) = (fst (snd (start env s)), [])"
  by (simp add: start_def stop_def Let_def)

theorem start_filter_failure_witness:
  "timerEventSource (exampleEngine REAC_SLAVE)
   \<and> addEventSource (exampleEnvironment\<lparr> iflt_attach := False \<rparr>)
   \<and> \<not> iflt_attach (exampleEnvironment\<lparr> iflt_attach := False \<rparr>)
   \<and> \<not> started (exampleEngine REAC_SLAVE)
   \<and> timerTimeout (exampleEngine REAC_SLAVE) = None
   \<and> \<not> timerOnWorkLoop (exampleEngine REAC_SLAVE)
   \<and> \<not> fst (start (exampleEnvironment\<lparr> iflt_attach := False \<rparr>) (exampleEngine REAC_SLAVE))
   \<and> timerTimeout (fst (snd (start (exampleEnvironment\<lparr> iflt_attach := False \<rparr>)
        (exampleEngine REAC_SLAVE)))) = Some 400000000
   \<and> timerOnWorkLoop (fst (snd (start (exampleEnvironment\<lparr> iflt_attach := False \<rparr>)
        (exampleEngine REAC_SLAVE))))
   \<and> timerTimeout (fst (stop (fst (snd (start (exampleEnvironment\<lparr> iflt_attach := False \<rparr>)
        (exampleEngine REAC_SLAVE)))))) = Some 400000000"
proof -
  have a: "timerEventSource (exampleEngine REAC_SLAVE)"
    "addEventSource (exampleEnvironment\<lparr> iflt_attach := False \<rparr>)"
    "\<not> iflt_attach (exampleEnvironment\<lparr> iflt_attach := False \<rparr>)"
    "\<not> started (exampleEngine REAC_SLAVE)"
    by (simp_all add: exampleEngine_def exampleEnvironment_def)
  have b: "timerTimeout (exampleEngine REAC_SLAVE) = None"
    "\<not> timerOnWorkLoop (exampleEngine REAC_SLAVE)"
    "timeoutNS (exampleEngine REAC_SLAVE) = 400000000"
    by (simp_all add: exampleEngine_def)
  from start_filter_failure [OF a] a b show ?thesis by simp
qed


subsection \<open>The idle timeout\<close>

lemma getAndPushSamples_noConn: "filter isConnectionCallback (snd (getAndPushSamples K env s)) = []"
  by (rule filter_empty_events) (simp add: getAndPushSamples_events)

text \<open>
  C1, as the code behaves: on a connected object whose idle time is past the
  threshold, a firing of the timer calls the connection callback with \<open>NULL\<close> and
  leaves the object connected, with the last seen counter where it was; so the
  next firing does the same again.
\<close>
theorem idle_timeout_stays_connected:
  "isConnected s \<Longrightarrow> connectionCallback s \<Longrightarrow>
   REAC_TIMEOUT_UNTIL_DISCONNECT * 1000000
     < (connectionCounter s - lastSeenConnectionCounter s) * timeoutNS s \<Longrightarrow>
     isConnected (fst (timerFired K env s))
     \<and> filter isConnectionCallback (snd (timerFired K env s)) = [ConnectionCallback None]
     \<and> connectionCounter (fst (timerFired K env s)) = connectionCounter s + 1
     \<and> lastSeenConnectionCounter (fst (timerFired K env s)) = lastSeenConnectionCounter s"
  by (simp add: timerFired_def Let_def checkConnection_def isConnected_def
      getAndPushSamples_noConn)

lemma idleRun_start:
  "snd (start exampleEnvironment (exampleEngine REAC_SLAVE))
   = (connectedEngine\<lparr> connected := False, nextTime := 400000000 \<rparr>, [])"
  by (simp add: start_def Let_def exampleEngine_def exampleEnvironment_def connectedEngine_def)

lemma idleRun_packet:
  "fst (filterCommandGateMsg exampleConstants exampleEnvironment
      (connectedEngine\<lparr> connected := False, nextTime := 400000000 \<rparr>) (examplePacket 0 0))
   = connectedEngine\<lparr> connectionCounter := 0, nextTime := 400000000,
       timerTimeout := Some 400000000 \<rparr>"
proof -
  have p: "checkPacket exampleConstants
      (connectedEngine\<lparr> connected := False, nextTime := 400000000 \<rparr>) (examplePacket 0 0)
      = Inr [0, 0, 0, 0]"
    using checkPacket_example [of REAC_SLAVE 0 0]
    by (simp add: checkPacket_def connectedEngine_def exampleEngine_def)
  have g: "getCounter exampleConstants [0, 0, 0, 0] = 0"
    by (simp add: exampleConstants_def counterLE_def)
  have m: "mode (connectedEngine\<lparr> connected := False, nextTime := 400000000 \<rparr>) \<noteq> REAC_MASTER"
    by (simp add: connectedEngine_def exampleEngine_def)
  show ?thesis
    by (simp add: filterCommandGateMsg_def m p g Let_def announceConnect_def isConnected_def)
       (simp add: connectedEngine_def exampleEngine_def)
qed

lemma idleRun_timer:
  "n < 3 \<Longrightarrow> fst (timerFired exampleConstants exampleEnvironment
      (connectedEngine\<lparr> connectionCounter := n, nextTime := t, timerTimeout := x \<rparr>))
   = connectedEngine\<lparr> connectionCounter := n + 1, nextTime := t + 400000000,
       timerTimeout := Some (400000000 + t) \<rparr>"
proof -
  assume "n < 3"
  then have "\<not> 1000000000 < n * 400000000"
    by (simp add: word_less_nat_alt word_le_nat_alt unat_word_ariths)
  then show ?thesis
    by (simp add: timerFired_def checkConnection_def Let_def isConnected_def
        REAC_TIMEOUT_UNTIL_DISCONNECT_def connectedEngine_def exampleEngine_def
        exampleEnvironment_def)
qed

lemma idleRun_state: "fst (run exampleConstants (exampleEngine REAC_SLAVE) idleRun) = idleEngine"
  by (simp add: idleRun_def Let_def idleRun_start idleRun_packet idleRun_timer idleEngine_def)

theorem idle_timeout_stays_connected_witness:
  "fst (run exampleConstants (exampleEngine REAC_SLAVE) idleRun) = idleEngine
   \<and> isConnected idleEngine \<and> connectionCallback idleEngine
   \<and> REAC_TIMEOUT_UNTIL_DISCONNECT * 1000000
       < (connectionCounter idleEngine - lastSeenConnectionCounter idleEngine) * timeoutNS idleEngine
   \<and> isConnected (fst (timerFired exampleConstants exampleEnvironment idleEngine))
   \<and> filter isConnectionCallback (snd (timerFired exampleConstants exampleEnvironment idleEngine))
       = [ConnectionCallback None]
   \<and> filter isConnectionCallback (snd (timerFired exampleConstants exampleEnvironment
         (fst (timerFired exampleConstants exampleEnvironment idleEngine))))
       = [ConnectionCallback None]
   \<and> isConnected (fst (timerFired exampleConstants exampleEnvironment
         (fst (timerFired exampleConstants exampleEnvironment idleEngine))))"
proof -
  let ?s1 = "fst (timerFired exampleConstants exampleEnvironment idleEngine)"
  have a: "isConnected idleEngine" "connectionCallback idleEngine"
    "REAC_TIMEOUT_UNTIL_DISCONNECT * 1000000
       < (connectionCounter idleEngine - lastSeenConnectionCounter idleEngine) * timeoutNS idleEngine"
    by (simp_all add: idleEngine_def connectedEngine_def exampleEngine_def isConnected_def
        REAC_TIMEOUT_UNTIL_DISCONNECT_def)
  note t1 = idle_timeout_stays_connected [OF a, of exampleConstants exampleEnvironment]
  have b: "connectionCallback ?s1" "timeoutNS ?s1 = 400000000"
    by (simp_all add: timerFired_def Let_def checkConnection_def idleEngine_def
        connectedEngine_def exampleEngine_def)
  have c: "REAC_TIMEOUT_UNTIL_DISCONNECT * 1000000
       < (connectionCounter ?s1 - lastSeenConnectionCounter ?s1) * timeoutNS ?s1"
    using t1 b
    by (simp add: idleEngine_def connectedEngine_def exampleEngine_def
        REAC_TIMEOUT_UNTIL_DISCONNECT_def)
  from t1 have d: "isConnected ?s1" by simp
  note t2 = idle_timeout_stays_connected [OF d b(1) c, of exampleConstants exampleEnvironment]
  from a t1 t2 idleRun_state show ?thesis by simp
qed


subsection \<open>The sample buffer of an outbound packet\<close>

text \<open>
  C2, as the code behaves: a buffer of exactly the size of the sample block is
  rejected by \<open>pushSamples\<close> with \<open>kIOReturnBadArgument\<close>, and no frame is built
  or sent.
\<close>
theorem pushSamples_rejects_exact_size:
  "mode s = REAC_SLAVE \<or> mode s = REAC_MASTER \<Longrightarrow>
   length b = REAC_SAMPLES_PER_PACKET K * REAC_RESOLUTION K * out_channels (deviceInfo s) \<Longrightarrow>
     pushSamples K env s (length b) (Some b) = (kIOReturnBadArgument, [])
     \<and> (getSamplesCallback s \<and> getSamplesCallback_buffer env = Some b
          \<longrightarrow> getAndPushSamples K env s = (kIOReturnBadArgument, [GetSamplesCallback]))"
  by (auto simp: pushSamples_def getAndPushSamples_def Let_def)

theorem pushSamples_rejects_exact_size_witness:
  "mode (exampleEngine REAC_MASTER) = REAC_MASTER
   \<and> length (replicate 288 (1 :: byte)) = 12 * 3 * 8
   \<and> pushSamples exampleConstants exampleEnvironment (exampleEngine REAC_MASTER) 288
        (Some (replicate 288 1)) = (kIOReturnBadArgument, [])
   \<and> pushSamples exampleConstants exampleEnvironment (exampleEngine REAC_MASTER) 1 (Some [1])
      = (kIOReturnSuccess,
         [OutputRaw (replicate 6 0xff @ replicate 6 0xff @ [0x88, 0x19] @ [0, 0, 0, 0]
            @ [1] @ replicate 287 0xAA @ [0xc2, 0xea])])"
proof -
  have a: "mode (exampleEngine REAC_MASTER) = REAC_SLAVE \<or> mode (exampleEngine REAC_MASTER) = REAC_MASTER"
    by (simp add: exampleEngine_def)
  have b: "length (replicate 288 (1 :: byte))
      = REAC_SAMPLES_PER_PACKET exampleConstants * REAC_RESOLUTION exampleConstants
        * out_channels (deviceInfo (exampleEngine REAC_MASTER))"
    by (simp add: exampleConstants_def exampleEngine_def)
  have c: "pushSamples exampleConstants exampleEnvironment (exampleEngine REAC_MASTER) 1 (Some [1])
      = (kIOReturnSuccess,
         [OutputRaw (replicate 6 0xff @ replicate 6 0xff @ [0x88, 0x19] @ [0, 0, 0, 0]
            @ [1] @ replicate 287 0xAA @ [0xc2, 0xea])])"
    by (simp add: pushSamples_def exampleConstants_def exampleEngine_def exampleEnvironment_def
        Let_def fillPacket_def copyFromBufferToMbuf_def copyAudioFromBufferToMbuf_def
        sizeof_EthernetHeader_def sizeof_ENDING_def bytes2_def)
  from pushSamples_rejects_exact_size [OF a b, of exampleEnvironment] c
  show ?thesis by (simp add: exampleEngine_def)
qed


subsection \<open>From the send half to the receive half\<close>

lemma getAndPushSamples_exact:
  assumes "mode s = REAC_SLAVE \<or> mode s = REAC_MASTER"
    and "getSamplesCallback s" and "getSamplesCallback_buffer env = Some b"
    and "length b = REAC_SAMPLES_PER_PACKET K * REAC_RESOLUTION K * out_channels (deviceInfo s)"
  shows "getAndPushSamples K env s = (kIOReturnBadArgument, [GetSamplesCallback])"
  using assms by (auto simp: getAndPushSamples_def pushSamples_def Let_def)

lemma checkConnection_fields:
  "mode (fst (checkConnection s)) = mode s"
  "deviceInfo (fst (checkConnection s)) = deviceInfo s"
  "getSamplesCallback (fst (checkConnection s)) = getSamplesCallback s"
  "filter isOutputRaw (snd (checkConnection s)) = []"
  by (simp_all add: checkConnection_def Let_def)

lemma timerFired_exact:
  assumes "mode s = REAC_SLAVE \<or> mode s = REAC_MASTER"
    and "getSamplesCallback s" and "getSamplesCallback_buffer env = Some b"
    and "length b = REAC_SAMPLES_PER_PACKET K * REAC_RESOLUTION K * out_channels (deviceInfo s)"
  shows "filter isOutputRaw (snd (timerFired K env s)) = []"
proof -
  have "getAndPushSamples K env (fst (checkConnection s))
      = (kIOReturnBadArgument, [GetSamplesCallback])"
    using assms by (intro getAndPushSamples_exact) (simp_all add: checkConnection_fields)
  then show ?thesis
    by (simp add: timerFired_def Let_def checkConnection_fields)
qed

lemma announceConnect_fields:
  "mode ((fst (announceConnect s))\<lparr> lastSeenConnectionCounter := c \<rparr>) = mode s"
  "deviceInfo ((fst (announceConnect s))\<lparr> lastSeenConnectionCounter := c \<rparr>) = deviceInfo s"
  "getSamplesCallback ((fst (announceConnect s))\<lparr> lastSeenConnectionCounter := c \<rparr>)
     = getSamplesCallback s"
  "filter isOutputRaw (snd (announceConnect s)) = []"
  by (simp_all add: announceConnect_def)

lemma deliverSamples_exact:
  assumes "getAndPushSamples K env s = (kIOReturnBadArgument, [GetSamplesCallback])"
  shows "filter isOutputRaw (deliverSamples K env s data h) = []"
  using assms by (simp add: deliverSamples_def Let_def split: option.splits)

lemma filterCommandGateMsg_exact:
  assumes "mode s = REAC_SLAVE \<or> mode s = REAC_MASTER"
    and "getSamplesCallback s" and "getSamplesCallback_buffer env = Some b"
    and "length b = REAC_SAMPLES_PER_PACKET K * REAC_RESOLUTION K * out_channels (deviceInfo s)"
  shows "filter isOutputRaw (snd (filterCommandGateMsg K env s data)) = []"
proof -
  let ?s1 = "(fst (announceConnect s))
      \<lparr> lastSeenConnectionCounter := connectionCounter (fst (announceConnect s)) \<rparr>"
  have m: "mode ?s1 = REAC_SLAVE \<or> mode ?s1 = REAC_MASTER"
    using assms(1) by (simp only: announceConnect_fields)
  have c: "getSamplesCallback ?s1"
    using assms(2) by (simp only: announceConnect_fields)
  have l: "length b = REAC_SAMPLES_PER_PACKET K * REAC_RESOLUTION K * out_channels (deviceInfo ?s1)"
    using assms(4) by (simp only: announceConnect_fields)
  have "getAndPushSamples K env ?s1 = (kIOReturnBadArgument, [GetSamplesCallback])"
    using m c assms(3) l by (rule getAndPushSamples_exact)
  then have "filter isOutputRaw (deliverSamples K env ?s1 data h) = []" for h
    by (rule deliverSamples_exact)
  then show ?thesis
    by (simp add: filterCommandGateMsg_def Let_def checkCounter_def announceConnect_fields
        split: sum.splits)
qed

text \<open>
  C5, as the code behaves: when the sample source hands back a buffer of exactly
  the size of the sample block, the send half ends with \<open>kIOReturnBadArgument\<close>
  and hands no frame to the interface, from the timer as from the reply to an
  inbound packet, in both modes and whatever header the data stream computes. So
  there is no encoded frame, and nothing from which the receive half could recover
  the header or the samples.
\<close>
theorem exact_size_buffer_sends_no_frame:
  "mode s = REAC_SLAVE \<or> mode s = REAC_MASTER \<Longrightarrow>
   getSamplesCallback s \<Longrightarrow> getSamplesCallback_buffer env = Some b \<Longrightarrow>
   length b = REAC_SAMPLES_PER_PACKET K * REAC_RESOLUTION K * out_channels (deviceInfo s) \<Longrightarrow>
     getAndPushSamples K env s = (kIOReturnBadArgument, [GetSamplesCallback])
     \<and> filter isOutputRaw (snd (timerFired K env s)) = []
     \<and> filter isOutputRaw (snd (filterCommandGateMsg K env s data)) = []"
  by (simp add: getAndPushSamples_exact timerFired_exact filterCommandGateMsg_exact)

theorem exact_size_buffer_sends_no_frame_witness:
  "mode (exampleEngine REAC_MASTER) = REAC_MASTER
   \<and> getSamplesCallback (exampleEngine REAC_MASTER)
   \<and> getSamplesCallback_buffer exactBufferEnvironment = Some (replicate 288 7)
   \<and> processPacket exactBufferEnvironment = Some [5, 0, 1, 2]
   \<and> length (replicate 288 (7 :: byte)) = 12 * 3 * 8
   \<and> getAndPushSamples exampleConstants exactBufferEnvironment (exampleEngine REAC_MASTER)
       = (kIOReturnBadArgument, [GetSamplesCallback])
   \<and> filter isOutputRaw (snd (timerFired exampleConstants exactBufferEnvironment
        (exampleEngine REAC_MASTER))) = []
   \<and> getAndPushSamples exampleConstants
        (exactBufferEnvironment\<lparr> getSamplesCallback_buffer := None \<rparr>) (exampleEngine REAC_MASTER)
       = (kIOReturnSuccess,
          [GetSamplesCallback,
           OutputRaw (replicate 6 0xff @ replicate 6 0xff @ [0x88, 0x19] @ [5, 0, 1, 2]
             @ replicate 288 0 @ [0xc2, 0xea])])"
proof -
  have a: "mode (exampleEngine REAC_MASTER) = REAC_SLAVE \<or> mode (exampleEngine REAC_MASTER) = REAC_MASTER"
    "getSamplesCallback (exampleEngine REAC_MASTER)"
    "getSamplesCallback_buffer exactBufferEnvironment = Some (replicate 288 7)"
    "length (replicate 288 (7 :: byte))
      = REAC_SAMPLES_PER_PACKET exampleConstants * REAC_RESOLUTION exampleConstants
        * out_channels (deviceInfo (exampleEngine REAC_MASTER))"
    by (simp_all add: exampleEngine_def exactBufferEnvironment_def exampleConstants_def)
  have b: "mode (exampleEngine REAC_MASTER) = REAC_MASTER"
    "processPacket exactBufferEnvironment = Some [5, 0, 1, 2]"
    by (simp_all add: exampleEngine_def exactBufferEnvironment_def)
  have c: "getAndPushSamples exampleConstants
        (exactBufferEnvironment\<lparr> getSamplesCallback_buffer := None \<rparr>) (exampleEngine REAC_MASTER)
       = (kIOReturnSuccess,
          [GetSamplesCallback,
           OutputRaw (replicate 6 0xff @ replicate 6 0xff @ [0x88, 0x19] @ [5, 0, 1, 2]
             @ replicate 288 0 @ [0xc2, 0xea])])"
    by (simp add: getAndPushSamples_def pushSamples_def exampleConstants_def exampleEngine_def
        exactBufferEnvironment_def exampleEnvironment_def Let_def fillPacket_def
        copyFromBufferToMbuf_def zeroMbuf_def sizeof_EthernetHeader_def sizeof_ENDING_def
        bytes2_def)
  from exact_size_buffer_sends_no_frame [OF a, of "[]"] a(2,3) b c
  show ?thesis by simp
qed

end
